theory Spec2Isabelle
  imports Complex_Main "HOL-Library.Word"
begin

unbundle bit_operations_syntax

section \<open>The C++ type \<open>float\<close>: IEEE-754 binary32 values as bit patterns\<close>

text \<open>
  \<open>SensorRangeFinder.hpp\<close> stores every distance, cosine and interval in a C++ \<open>float\<close>.
  A \<open>float\<close> is modelled as the 32 bits it occupies: bit 31 is the sign, bits 30..23 the
  biased exponent, bits 22..0 the fraction. The operations the header applies to floats
  (\<open>>\<close>, \<open><\<close>, conversion to \<open>bool\<close>, \<open>-\<close>, \<open>fabsf\<close>) are defined on these bits as
  IEEE-754 prescribes, with round-to-nearest-even and every expression evaluated in single
  precision.
\<close>

type_synonym float = "32 word"

definition f32_sign :: "float \<Rightarrow> bool" where
  "f32_sign w = bit w 31"

definition f32_exponent :: "float \<Rightarrow> nat" where
  "f32_exponent w = (unat w div 2 ^ 23) mod 2 ^ 8"

definition f32_fraction :: "float \<Rightarrow> nat" where
  "f32_fraction w = unat w mod 2 ^ 23"

definition f32_is_nan :: "float \<Rightarrow> bool" where
  "f32_is_nan w = (f32_exponent w = 255 \<and> f32_fraction w \<noteq> 0)"

definition f32_is_inf :: "float \<Rightarrow> bool" where
  "f32_is_inf w = (f32_exponent w = 255 \<and> f32_fraction w = 0)"

definition f32_is_zero :: "float \<Rightarrow> bool" where
  "f32_is_zero w = (f32_exponent w = 0 \<and> f32_fraction w = 0)"

definition f32_is_finite :: "float \<Rightarrow> bool" where
  "f32_is_finite w = (f32_exponent w < 255)"

text \<open>
  Every finite binary32 value is an integer multiple of \<open>2 ^ -149\<close>. \<open>f32_magnitude\<close> is the
  absolute value in that unit: \<open>fraction\<close> for a subnormal, \<open>(2 ^ 23 + fraction) * 2 ^ (e - 1)\<close>
  for a normal number of biased exponent \<open>e\<close>. The same formula gives an infinity (exponent
  255, fraction 0) the magnitude \<open>2 ^ 277\<close>, above every finite one, so that comparing
  \<open>f32_scaled\<close> orders infinities as IEEE-754 does.
\<close>

definition f32_magnitude :: "float \<Rightarrow> nat" where
  "f32_magnitude w =
     (if f32_exponent w = 0 then f32_fraction w
      else (2 ^ 23 + f32_fraction w) * 2 ^ (f32_exponent w - 1))"

definition f32_scaled :: "float \<Rightarrow> int" where
  "f32_scaled w = (if f32_sign w then - int (f32_magnitude w) else int (f32_magnitude w))"

definition f32_val :: "float \<Rightarrow> real" where
  "f32_val w = real_of_int (f32_scaled w) / 2 ^ 149"

text \<open>The comparisons \<open><\<close>, \<open><=\<close>, \<open>>\<close> of C++: false as soon as an operand is a NaN.\<close>

definition f32_less :: "float \<Rightarrow> float \<Rightarrow> bool" where
  "f32_less a b = (\<not> f32_is_nan a \<and> \<not> f32_is_nan b \<and> f32_scaled a < f32_scaled b)"

definition f32_less_eq :: "float \<Rightarrow> float \<Rightarrow> bool" where
  "f32_less_eq a b = (\<not> f32_is_nan a \<and> \<not> f32_is_nan b \<and> f32_scaled a \<le> f32_scaled b)"

definition f32_greater :: "float \<Rightarrow> float \<Rightarrow> bool" where
  "f32_greater a b = (\<not> f32_is_nan a \<and> \<not> f32_is_nan b \<and> f32_scaled b < f32_scaled a)"

text \<open>
  The implicit conversion of a \<open>float\<close> to \<open>bool\<close> (a \<open>return\<close> of a float from a function
  declared \<open>bool\<close>): zero, of either sign, converts to \<open>false\<close>, any other value, a NaN
  included, to \<open>true\<close>.
\<close>

definition float_to_bool :: "float \<Rightarrow> bool" where
  "float_to_bool w = (\<not> f32_is_zero w)"

text \<open>\<open>fabsf\<close> clears the sign bit.\<close>

definition fabsf :: "float \<Rightarrow> float" where
  "fabsf w = w AND 0x7FFFFFFF"

text \<open>
  Rounding a magnitude \<open>n\<close> (in units of \<open>2 ^ -149\<close>) to the nearest binary32, ties to the even
  significand: \<open>k\<close> bits are dropped so that 24 remain, and the result is assembled as
  \<open>k * 2 ^ 23 + q\<close>, where the leading bit of the significand \<open>q\<close> raises the exponent field
  from \<open>k\<close> to \<open>k + 1\<close> (and a carry out of the significand raises it once more). A result
  beyond the largest finite value is an infinity.
\<close>

fun bit_length :: "nat \<Rightarrow> nat" where
  "bit_length n = (if n = 0 then 0 else Suc (bit_length (n div 2)))"

declare bit_length.simps [simp del]

definition f32_round :: "nat \<Rightarrow> float" where
  "f32_round n =
     (let k = bit_length n - 24;
          q = n div 2 ^ k;
          r = n mod 2 ^ k;
          q' = (if 2 ^ k < 2 * r \<or> (2 * r = 2 ^ k \<and> odd q) then q + 1 else q);
          bits = k * 2 ^ 23 + q'
      in if 0x7F800000 \<le> bits then 0x7F800000 else word_of_nat bits)"

definition f32_neg :: "float \<Rightarrow> float" where
  "f32_neg w = w XOR 0x80000000"

text \<open>
  The subtraction \<open>a - b\<close>. A NaN operand, or the difference of two infinities of the same
  sign, gives a NaN (the header only compares the result, so the NaN's payload is not
  observable and the default quiet NaN stands for it). An exact difference of zero is \<open>+0\<close>,
  except \<open>(-0) - (+0) = -0\<close>.
\<close>

definition f32_sub :: "float \<Rightarrow> float \<Rightarrow> float" where
  "f32_sub a b =
     (if f32_is_nan a \<or> f32_is_nan b then 0x7FC00000
      else if f32_is_inf a \<and> f32_is_inf b then
        (if f32_sign a = f32_sign b then 0x7FC00000 else a)
      else if f32_is_inf a then a
      else if f32_is_inf b then f32_neg b
      else
        (let d = f32_scaled a - f32_scaled b in
         if d = 0 then (if f32_sign a \<and> \<not> f32_sign b then 0x80000000 else 0)
         else if d < 0 then f32_neg (f32_round (nat (- d)))
         else f32_round (nat d)))"

text \<open>
  \<open>FLT_EPSILON\<close> of \<open><cfloat>\<close> is \<open>2 ^ -23\<close>. The float literals of the header are
  written as the bit patterns of the nearest binary32 values: \<open>0.0f\<close> is \<open>0\<close>, \<open>2e6f\<close> is
  \<open>0x49F42400\<close> (exactly 2000000), \<open>0.7071f\<close> is \<open>0x3F350481\<close>, \<open>0.1f\<close> is
  \<open>0x3DCCCCCD\<close>, \<open>0.01f\<close> is \<open>0x3C23D70A\<close>.
\<close>

definition FLT_EPSILON :: float where
  "FLT_EPSILON = 0x34000000"

section \<open>The data of \<open>SensorRangeFinder.hpp\<close>\<close>

text \<open>
  Modelled from the spec: \<open>estimator::rangeSample\<close> is declared in a header that is not part
  of the sources at hand. The spec describes it as
  \<open>{ timestamp (monotonic, microseconds), distance (meters, float), quality (integer) }\<close>;
  the header reads and writes the distance as the field \<open>rng\<close>. A value-initialised sample
  (\<open>rangeSample{}\<close>) has every field zero.
\<close>

record rangeSample =
  time_us :: "64 word"
  rng :: float
  quality :: int

definition rangeSample_zero :: rangeSample where
  "rangeSample_zero = \<lparr>time_us = 0, rng = 0, quality = 0\<rparr>"

text \<open>
  The private data members of \<open>class SensorRangeFinder\<close>, in the order of their declaration
  (lines 105 to 130), each under its name without the leading underscore. The base class
  \<open>Sensor\<close> is an interface; the \<open>static constexpr\<close> member \<open>_dt_update\<close> is a constant and
  not part of the state.
\<close>

record SensorRangeFinder =
  newest_sample :: rangeSample
  range_sample_delayed :: rangeSample
  range_data_ready :: bool
  rng_hgt_valid :: bool
  is_stuck :: bool
  dt_last_range_update_filt_us :: float
  time_last_rng_ready :: "64 word"
  time_bad_rng_signal_quality :: "64 word"
  rng_stuck_min_val :: float
  rng_stuck_max_val :: float
  tilt :: float
  sin_tilt_rng :: float
  cos_tilt_rng :: float
  R_rng_to_earth_2_2 :: float
  rng_valid_min_val :: float
  rng_valid_max_val :: float
  range_cos_max_tilt :: float
  range_stuck_threshold :: float
  range_signal_hysteresis_ms :: "64 word"

definition dt_update :: float where
  "dt_update = 0x3C23D70A"

text \<open>
  \<open>SensorRangeFinder() = default\<close>: every member takes its default member initialiser; an
  empty initialiser \<open>{}\<close> is zero (\<open>false\<close> for a \<open>bool\<close>).
\<close>

definition SensorRangeFinder_default :: SensorRangeFinder where
  "SensorRangeFinder_default =
     \<lparr>newest_sample = rangeSample_zero,
      range_sample_delayed = rangeSample_zero,
      range_data_ready = False,
      rng_hgt_valid = False,
      is_stuck = False,
      dt_last_range_update_filt_us = 0,
      time_last_rng_ready = 0,
      time_bad_rng_signal_quality = 0,
      rng_stuck_min_val = 0,
      rng_stuck_max_val = 0,
      tilt = 0,
      sin_tilt_rng = 0,
      cos_tilt_rng = 0,
      R_rng_to_earth_2_2 = 0,
      rng_valid_min_val = 0,
      rng_valid_max_val = 0,
      range_cos_max_tilt = 0x3F350481,
      range_stuck_threshold = 0x3DCCCCCD,
      range_signal_hysteresis_ms = 1000\<rparr>"

section \<open>The member functions defined in the header\<close>

definition isHealthy :: "SensorRangeFinder \<Rightarrow> bool" where
  "isHealthy s = rng_hgt_valid s"

definition isNewHealthyData :: "SensorRangeFinder \<Rightarrow> bool" where
  "isNewHealthyData s = (range_data_ready s \<and> rng_hgt_valid s)"

definition isDelayedHealthyData :: "SensorRangeFinder \<Rightarrow> bool" where
  "isDelayedHealthyData s = (range_data_ready s \<and> rng_hgt_valid s)"

definition setNewestSample :: "rangeSample \<Rightarrow> SensorRangeFinder \<Rightarrow> SensorRangeFinder" where
  "setNewestSample sample s = s\<lparr>newest_sample := sample\<rparr>"

definition setDelayedSample :: "rangeSample \<Rightarrow> SensorRangeFinder \<Rightarrow> SensorRangeFinder" where
  "setDelayedSample sample s = s\<lparr>range_sample_delayed := sample, range_data_ready := True\<rparr>"

text \<open>
  \<open>setTilt\<close> calls \<open>sinf\<close> and \<open>cosf\<close> of the C library, which are not code of this
  repository: the model takes them as its first two arguments. The body compares the new
  angle with the member \<open>_tilt\<close> and assigns \<open>_sin_tilt_rng\<close>, \<open>_cos_tilt_rng\<close> and
  \<open>_range_cos_max_tilt\<close>; it has no assignment to \<open>_tilt\<close>.
\<close>

definition setTilt ::
  "(float \<Rightarrow> float) \<Rightarrow> (float \<Rightarrow> float) \<Rightarrow> float \<Rightarrow> float \<Rightarrow> SensorRangeFinder \<Rightarrow> SensorRangeFinder"
where
  "setTilt sinf cosf new_tilt range_cos_max_tilt' s =
     (let s1 = (if f32_greater (fabsf (f32_sub (tilt s) new_tilt)) FLT_EPSILON
                then s\<lparr>sin_tilt_rng := sinf new_tilt, cos_tilt_rng := cosf new_tilt\<rparr>
                else s)
      in s1\<lparr>range_cos_max_tilt := range_cos_max_tilt'\<rparr>)"

definition setLimits :: "float \<Rightarrow> float \<Rightarrow> SensorRangeFinder \<Rightarrow> SensorRangeFinder" where
  "setLimits min_distance max_distance s =
     s\<lparr>rng_valid_min_val := min_distance, rng_valid_max_val := max_distance\<rparr>"

definition getRToEarth :: "SensorRangeFinder \<Rightarrow> float" where
  "getRToEarth s = R_rng_to_earth_2_2 s"

definition setDelayedRng :: "float \<Rightarrow> SensorRangeFinder \<Rightarrow> SensorRangeFinder" where
  "setDelayedRng r s = s\<lparr>range_sample_delayed := (range_sample_delayed s)\<lparr>rng := r\<rparr>\<rparr>"

definition getDelayedRng :: "SensorRangeFinder \<Rightarrow> float" where
  "getDelayedRng s = rng (range_sample_delayed s)"

definition setDataReadiness :: "bool \<Rightarrow> SensorRangeFinder \<Rightarrow> SensorRangeFinder" where
  "setDataReadiness is_ready s = s\<lparr>range_data_ready := is_ready\<rparr>"

definition setValidity :: "bool \<Rightarrow> SensorRangeFinder \<Rightarrow> SensorRangeFinder" where
  "setValidity is_valid s = s\<lparr>rng_hgt_valid := is_valid\<rparr>"

definition isStuck :: "SensorRangeFinder \<Rightarrow> bool" where
  "isStuck s = is_stuck s"

definition isTiltOk :: "SensorRangeFinder \<Rightarrow> bool" where
  "isTiltOk s = f32_greater (R_rng_to_earth_2_2 s) (range_cos_max_tilt s)"

text \<open>
  Both getters are declared \<open>bool\<close> and return a \<open>float\<close> member: the value is converted.
\<close>

definition getValidMinVal :: "SensorRangeFinder \<Rightarrow> bool" where
  "getValidMinVal s = float_to_bool (rng_valid_min_val s)"

definition getValidMaxVal :: "SensorRangeFinder \<Rightarrow> bool" where
  "getValidMaxVal s = float_to_bool (rng_valid_max_val s)"

definition isRangeDataContinuous :: "SensorRangeFinder \<Rightarrow> bool" where
  "isRangeDataContinuous s = f32_less (dt_last_range_update_filt_us s) 0x49F42400"

text \<open>
  The remaining members of the interface: \<open>canBeusedAsFailover\<close> and \<open>canResetOnSensor\<close> are
  \<open>const\<close> and only declared, and \<open>getSampleDelayedAddress\<close> returns the address of the
  delayed sample without changing the object.

  A call of one of the state-changing member functions whose bodies are in the header, and
  its effect on the state.
\<close>

datatype call =
    SetNewestSample rangeSample
  | SetDelayedSample rangeSample
  | SetTilt float float
  | SetLimits float float
  | SetDelayedRng float
  | SetDataReadiness bool
  | SetValidity bool

definition do_call ::
  "(float \<Rightarrow> float) \<Rightarrow> (float \<Rightarrow> float) \<Rightarrow> call \<Rightarrow> SensorRangeFinder \<Rightarrow> SensorRangeFinder"
where
  "do_call sinf cosf c s =
     (case c of
        SetNewestSample sample \<Rightarrow> setNewestSample sample s
      | SetDelayedSample sample \<Rightarrow> setDelayedSample sample s
      | SetTilt new_tilt cos_max \<Rightarrow> setTilt sinf cosf new_tilt cos_max s
      | SetLimits min_distance max_distance \<Rightarrow> setLimits min_distance max_distance s
      | SetDelayedRng r \<Rightarrow> setDelayedRng r s
      | SetDataReadiness is_ready \<Rightarrow> setDataReadiness is_ready s
      | SetValidity is_valid \<Rightarrow> setValidity is_valid s)"

section \<open>\<open>runChecks\<close>, which the header only declares\<close>

text \<open>
  Modelled from the spec: \<open>runChecks\<close>, \<open>updateRangeDataValidity\<close>,
  \<open>updateRangeDataContinuity\<close> and \<open>updateRangeDataStuck\<close> are declared in the header and
  defined in a source file that is not at hand. The definitions below follow sections 4.2 to
  4.6 of the spec. Where the spec names a numeric step without giving its formula (the
  effective cosine "computed from two matrix components and the cached sine/cosine", the
  "first-order low-pass blend" of the interval, its growth "by the nominal per-cycle delta
  time", the stuck window and its "sustained run of readings"), the step is a field of
  \<open>range_numerics\<close>; the rotation matrix has the type parameter \<open>'r\<close>.
\<close>

record 'r range_numerics =
  effective_cosine :: "'r \<Rightarrow> float \<Rightarrow> float \<Rightarrow> float"
  lowpass_blend :: "float \<Rightarrow> 64 word \<Rightarrow> float"
  lowpass_advance :: "float \<Rightarrow> float"
  stuck_window :: "bool \<Rightarrow> float \<Rightarrow> float \<Rightarrow> float \<Rightarrow> float \<Rightarrow> bool \<times> float \<times> float"

text \<open>
  Modelled from the spec: "\<open>min distance \<le> delayed sample distance \<le> max distance\<close>"
  (section 3).
\<close>

definition distance_in_bounds :: "SensorRangeFinder \<Rightarrow> bool" where
  "distance_in_bounds s =
     (f32_less_eq (rng_valid_min_val s) (rng (range_sample_delayed s)) \<and>
      f32_less_eq (rng (range_sample_delayed s)) (rng_valid_max_val s))"

text \<open>
  Modelled from the spec: section 4.3. With data ready, the raw interval is the current time
  minus the last-ready time (unsigned 64-bit microseconds), the filtered interval is blended
  with it and the last-ready time becomes the current time; otherwise the filtered interval
  advances.
\<close>

definition updateRangeDataContinuity ::
  "'r range_numerics \<Rightarrow> 64 word \<Rightarrow> SensorRangeFinder \<Rightarrow> SensorRangeFinder"
where
  "updateRangeDataContinuity N time_delayed_us s =
     (if range_data_ready s then
        s\<lparr>dt_last_range_update_filt_us :=
             lowpass_blend N (dt_last_range_update_filt_us s)
               (time_delayed_us - time_last_rng_ready s),
          time_last_rng_ready := time_delayed_us\<rparr>
      else
        s\<lparr>dt_last_range_update_filt_us :=
             lowpass_advance N (dt_last_range_update_filt_us s)\<rparr>)"

text \<open>
  Modelled from the spec: section 4.4. The stuck flag and the window are updated from the
  delayed sample's distance.
\<close>

definition updateRangeDataStuck ::
  "'r range_numerics \<Rightarrow> SensorRangeFinder \<Rightarrow> SensorRangeFinder"
where
  "updateRangeDataStuck N s =
     (case stuck_window N (is_stuck s) (rng_stuck_min_val s) (rng_stuck_max_val s)
             (range_stuck_threshold s) (rng (range_sample_delayed s)) of
        (stuck, lo, hi) \<Rightarrow>
          s\<lparr>is_stuck := stuck, rng_stuck_min_val := lo, rng_stuck_max_val := hi\<rparr>)"

text \<open>
  Modelled from the spec: section 4.5. The bad-quality timer is set to the current time
  whenever the newest sample's quality is non-zero; the quality is bad when it is zero and
  has been since at least the hysteresis duration (milliseconds, against microsecond times).
\<close>

definition updateRangeDataQuality :: "64 word \<Rightarrow> SensorRangeFinder \<Rightarrow> SensorRangeFinder" where
  "updateRangeDataQuality time_delayed_us s =
     (if quality (newest_sample s) \<noteq> 0
      then s\<lparr>time_bad_rng_signal_quality := time_delayed_us\<rparr>
      else s)"

definition quality_ok :: "64 word \<Rightarrow> SensorRangeFinder \<Rightarrow> bool" where
  "quality_ok time_delayed_us s =
     (\<not> (quality (newest_sample s) = 0 \<and>
         range_signal_hysteresis_ms s * 1000 \<le> time_delayed_us - time_bad_rng_signal_quality s))"

text \<open>
  Modelled from the spec: section 4.6, steps 1 to 5, in that order and none skipped: tilt,
  continuity, the stuck detector (only for a distance within the bounds), quality, and the
  aggregate stored in the validity flag.
\<close>

definition runChecks ::
  "'r range_numerics \<Rightarrow> 64 word \<Rightarrow> 'r \<Rightarrow> SensorRangeFinder \<Rightarrow> SensorRangeFinder"
where
  "runChecks N time_delayed_us R_to_earth s =
     (let s1 = s\<lparr>R_rng_to_earth_2_2 :=
                   effective_cosine N R_to_earth (sin_tilt_rng s) (cos_tilt_rng s)\<rparr>;
          s2 = updateRangeDataContinuity N time_delayed_us s1;
          s3 = (if distance_in_bounds s2 then updateRangeDataStuck N s2 else s2);
          s4 = updateRangeDataQuality time_delayed_us s3
      in s4\<lparr>rng_hgt_valid :=
              (distance_in_bounds s4 \<and> isTiltOk s4 \<and> isRangeDataContinuous s4 \<and>
               \<not> isStuck s4 \<and> quality_ok time_delayed_us s4)\<rparr>)"

section \<open>Facts about the binary32 model\<close>

lemma f32_fraction_less: "f32_fraction w < 2 ^ 23"
  by (simp add: f32_fraction_def)

lemma f32_exponent_less: "f32_exponent w < 256"
  by (simp add: f32_exponent_def)

lemma f32_magnitude_zero_iff: "f32_magnitude w = 0 \<longleftrightarrow> f32_is_zero w"
  by (simp add: f32_magnitude_def f32_is_zero_def)

lemma f32_scaled_zero_iff: "f32_scaled w = 0 \<longleftrightarrow> f32_is_zero w"
  by (simp add: f32_scaled_def f32_magnitude_zero_iff)

lemma f32_val_zero_iff: "f32_val w = 0 \<longleftrightarrow> f32_is_zero w"
  by (simp add: f32_val_def f32_scaled_zero_iff)

lemma f32_val_less_iff: "f32_val a < f32_val b \<longleftrightarrow> f32_scaled a < f32_scaled b"
  by (simp add: f32_val_def divide_less_cancel)

lemma f32_val_le_iff: "f32_val a \<le> f32_val b \<longleftrightarrow> f32_scaled a \<le> f32_scaled b"
  by (simp add: f32_val_def divide_le_cancel)

lemma f32_greater_iff_val:
  "f32_greater a b \<longleftrightarrow> \<not> f32_is_nan a \<and> \<not> f32_is_nan b \<and> f32_val b < f32_val a"
  by (simp add: f32_greater_def f32_val_less_iff)

lemma f32_less_iff_val:
  "f32_less a b \<longleftrightarrow> \<not> f32_is_nan a \<and> \<not> f32_is_nan b \<and> f32_val a < f32_val b"
  by (simp add: f32_less_def f32_val_less_iff)

lemma f32_less_eq_not_greater: "f32_less_eq a b \<Longrightarrow> \<not> f32_greater a b"
  by (simp add: f32_less_eq_def f32_greater_def)

text \<open>An infinity lies beyond every finite value.\<close>

lemma f32_magnitude_inf: "f32_is_inf w \<Longrightarrow> f32_magnitude w = 2 ^ 277"
  by (simp add: f32_is_inf_def f32_magnitude_def)

lemma f32_magnitude_finite:
  assumes "f32_is_finite w"
  shows "f32_magnitude w < 2 ^ 277"
proof (cases "f32_exponent w = 0")
  case True
  have "f32_fraction w < 2 ^ 23" by (rule f32_fraction_less)
  also have "(2::nat) ^ 23 < 2 ^ 277" by (simp only: power_strict_increasing_iff rel_simps)
  finally have "f32_fraction w < 2 ^ 277" .
  moreover from True have "f32_magnitude w = f32_fraction w"
    by (simp add: f32_magnitude_def)
  ultimately show ?thesis by (simp only:)
next
  case False
  have f: "2 ^ 23 + f32_fraction w < 2 ^ 24"
    using f32_fraction_less [of w] by simp
  from assms have "f32_exponent w - 1 \<le> 253"
    by (simp add: f32_is_finite_def)
  then have e: "(2::nat) ^ (f32_exponent w - 1) \<le> 2 ^ 253"
    by (simp only: power_increasing_iff rel_simps)
  have "(2 ^ 23 + f32_fraction w) * 2 ^ (f32_exponent w - 1) < 2 ^ 24 * 2 ^ 253"
    using f e by (rule mult_less_le_imp_less) simp_all
  also have "(2::nat) ^ 24 * 2 ^ 253 = 2 ^ 277"
    by (simp only: power_add [symmetric]) simp
  finally have "(2 ^ 23 + f32_fraction w) * 2 ^ (f32_exponent w - 1) < 2 ^ 277" .
  moreover from False
  have "f32_magnitude w = (2 ^ 23 + f32_fraction w) * 2 ^ (f32_exponent w - 1)"
    by (simp add: f32_magnitude_def)
  ultimately show ?thesis by (simp only:)
qed

lemma f32_fields_zero: "f32_exponent 0 = 0" "f32_fraction 0 = 0" "f32_sign 0 = False"
  by (simp_all add: f32_exponent_def f32_fraction_def f32_sign_def)

lemma f32_fields_minus_zero:
  "f32_exponent 0x80000000 = 0" "f32_fraction 0x80000000 = 0" "f32_sign 0x80000000 = True"
  by (simp_all add: f32_exponent_def f32_fraction_def f32_sign_def)

lemma f32_fields_2e6:
  "f32_exponent 0x49F42400 = 147" "f32_fraction 0x49F42400 = 7611392"
  "f32_sign 0x49F42400 = False"
  by (simp_all add: f32_exponent_def f32_fraction_def f32_sign_def)

lemma f32_val_2e6: "f32_val 0x49F42400 = 2000000"
  by (simp add: f32_val_def f32_scaled_def f32_magnitude_def f32_fields_2e6)

lemma f32_not_nan_2e6: "\<not> f32_is_nan 0x49F42400"
  by (simp add: f32_is_nan_def f32_fields_2e6)

lemma f32_fields_FLT_EPSILON:
  "f32_exponent FLT_EPSILON = 104" "f32_fraction FLT_EPSILON = 0" "f32_sign FLT_EPSILON = False"
  by (simp_all add: FLT_EPSILON_def f32_exponent_def f32_fraction_def f32_sign_def)

lemma f32_val_FLT_EPSILON: "f32_val FLT_EPSILON = 1 / 2 ^ 23"
  by (simp add: f32_val_def f32_scaled_def f32_magnitude_def f32_fields_FLT_EPSILON)

lemma f32_fields_one:
  "f32_exponent 0x3F800000 = 127" "f32_fraction 0x3F800000 = 0" "f32_sign 0x3F800000 = False"
  by (simp_all add: f32_exponent_def f32_fraction_def f32_sign_def)

lemma f32_scaled_zero: "f32_scaled 0 = 0"
  by (simp add: f32_scaled_def f32_magnitude_def f32_fields_zero)

lemma f32_val_one: "f32_val 0x3F800000 = 1"
  by (simp add: f32_val_def f32_scaled_def f32_magnitude_def f32_fields_one)

text \<open>
  The decimal literals of the header are within half a unit in the last place of the bit
  patterns that stand for them.
\<close>

lemma f32_fields_cos_max_tilt:
  "f32_exponent 0x3F350481 = 126" "f32_fraction 0x3F350481 = 3474561"
  "f32_sign 0x3F350481 = False"
  by (simp_all add: f32_exponent_def f32_fraction_def f32_sign_def)

lemma f32_val_cos_max_tilt: "\<bar>f32_val 0x3F350481 - 7071 / 10000\<bar> \<le> 1 / 2 ^ 25"
  by (simp add: f32_val_def f32_scaled_def f32_magnitude_def f32_fields_cos_max_tilt)

lemma f32_fields_stuck_threshold:
  "f32_exponent 0x3DCCCCCD = 123" "f32_fraction 0x3DCCCCCD = 5033165"
  "f32_sign 0x3DCCCCCD = False"
  by (simp_all add: f32_exponent_def f32_fraction_def f32_sign_def)

lemma f32_val_stuck_threshold: "\<bar>f32_val 0x3DCCCCCD - 1 / 10\<bar> \<le> 1 / 2 ^ 28"
  by (simp add: f32_val_def f32_scaled_def f32_magnitude_def f32_fields_stuck_threshold)

lemma f32_fields_dt_update:
  "f32_exponent dt_update = 120" "f32_fraction dt_update = 2348810" "f32_sign dt_update = False"
  by (simp_all add: dt_update_def f32_exponent_def f32_fraction_def f32_sign_def)

lemma f32_val_dt_update: "\<bar>f32_val dt_update - 1 / 100\<bar> \<le> 1 / 2 ^ 31"
  by (simp add: f32_val_def f32_scaled_def f32_magnitude_def f32_fields_dt_update)

subsection \<open>The number of bits of a magnitude\<close>

lemma bit_length_bounds: "0 < n \<Longrightarrow> 2 ^ (bit_length n - 1) \<le> n \<and> n < 2 ^ bit_length n"
proof (induction n rule: bit_length.induct)
  case (1 n)
  show ?case
  proof (cases "n div 2 = 0")
    case True
    with 1 have "n = 1" by (simp add: div_eq_0_iff)
    then show ?thesis by (simp add: bit_length.simps [of "Suc 0"] bit_length.simps [of 0])
  next
    case False
    with 1 have ih:
      "2 ^ (bit_length (n div 2) - 1) \<le> n div 2 \<and> n div 2 < 2 ^ bit_length (n div 2)"
      by simp
    have bl: "bit_length n = Suc (bit_length (n div 2))"
      using 1 by (simp add: bit_length.simps [of n])
    have pos: "0 < bit_length (n div 2)"
      using False by (simp add: bit_length.simps [of "n div 2"])
    from ih have "2 * 2 ^ (bit_length (n div 2) - 1) \<le> n" by linarith
    moreover have "2 * 2 ^ (bit_length (n div 2) - 1) = (2::nat) ^ bit_length (n div 2)"
      using pos by (cases "bit_length (n div 2)") simp_all
    moreover from ih have "n < 2 * 2 ^ bit_length (n div 2)" by linarith
    ultimately show ?thesis by (simp add: bl)
  qed
qed

lemma bit_length_eqI:
  assumes "2 ^ m \<le> n" "n < 2 ^ Suc m"
  shows "bit_length n = Suc m"
proof -
  from assms have pos: "0 < n" by (cases n) auto
  from bit_length_bounds [OF pos]
  have lo: "2 ^ (bit_length n - 1) \<le> n" and hi: "n < 2 ^ bit_length n" by simp_all
  from assms(1) hi have "(2::nat) ^ m < 2 ^ bit_length n" by linarith
  then have a: "m < bit_length n" by (simp only: power_strict_increasing_iff rel_simps)
  from lo assms(2) have "(2::nat) ^ (bit_length n - 1) < 2 ^ Suc m" by linarith
  then have b: "bit_length n - 1 < Suc m" by (simp only: power_strict_increasing_iff rel_simps)
  from a b show ?thesis by linarith
qed

lemma bit_length_le: "n < 2 ^ m \<Longrightarrow> bit_length n \<le> m"
proof (cases "n = 0")
  case True
  then show ?thesis by (simp add: bit_length.simps [of 0])
next
  case False
  assume lt: "n < 2 ^ m"
  from False bit_length_bounds [of n] have "2 ^ (bit_length n - 1) \<le> n" by simp
  with lt have "(2::nat) ^ (bit_length n - 1) < 2 ^ m" by linarith
  then have "bit_length n - 1 < m" by (simp only: power_strict_increasing_iff rel_simps)
  then show ?thesis by linarith
qed

subsection \<open>\<open>fabsf\<close> and the fields\<close>

lemma fabsf_eq_take_bit: "fabsf w = take_bit 31 w"
  by (simp add: fabsf_def take_bit_eq_mask mask_eq_exp_minus_1)

lemma fabsf_unat: "unat (fabsf w) = f32_exponent w * 2 ^ 23 + f32_fraction w"
proof -
  have "unat (fabsf w) = take_bit 31 (unat w)"
    by (simp only: fabsf_eq_take_bit unsigned_take_bit_eq)
  also have "\<dots> = unat w mod 2 ^ 31"
    by (simp only: take_bit_eq_mod)
  also have "\<dots> = 2 ^ 23 * (unat w div 2 ^ 23 mod 2 ^ 8) + unat w mod 2 ^ 23"
    using mod_mult2_eq [of "unat w" "2 ^ 23" "2 ^ 8"] by simp
  finally show ?thesis
    by (simp add: f32_exponent_def f32_fraction_def)
qed

lemma fabsf_word: "fabsf w = word_of_nat (f32_exponent w * 2 ^ 23 + f32_fraction w)"
  using fabsf_unat [of w, symmetric] by simp

lemma fabsf_f32_neg: "fabsf (f32_neg w) = fabsf w"
proof -
  have "take_bit 31 (w XOR 2 ^ 31) = take_bit 31 w XOR take_bit 31 (2 ^ 31 :: 32 word)"
    by (simp only: take_bit_xor)
  also have "take_bit 31 (2 ^ 31 :: 32 word) = 0"
    by (simp add: take_bit_eq_mod)
  finally show ?thesis
    by (simp add: fabsf_eq_take_bit f32_neg_def)
qed

lemma fabsf_fabsf: "fabsf (fabsf w) = fabsf w"
  by (simp add: fabsf_eq_take_bit)

lemma f32_exponent_fabsf: "f32_exponent (fabsf w) = f32_exponent w"
  using f32_fraction_less [of w] f32_exponent_less [of w]
  by (simp add: f32_exponent_def [of "fabsf w"] fabsf_unat)

lemma f32_fraction_fabsf: "f32_fraction (fabsf w) = f32_fraction w"
  using f32_fraction_less [of w]
  by (simp add: f32_fraction_def [of "fabsf w"] fabsf_unat)

lemma f32_is_nan_fabsf: "f32_is_nan (fabsf w) = f32_is_nan w"
  by (simp add: f32_is_nan_def f32_exponent_fabsf f32_fraction_fabsf)

lemma fabsf_zero: "fabsf 0 = 0"
  by (simp add: fabsf_def)

lemma fabsf_one: "fabsf 0x3F800000 = 0x3F800000"
  by (simp add: fabsf_def)

lemma fabsf_is_zero: "f32_is_zero w \<Longrightarrow> fabsf w = 0"
  by (simp add: fabsf_word f32_is_zero_def)

lemma f32_is_nan_default_nan: "f32_is_nan 0x7FC00000"
  by (simp add: f32_is_nan_def f32_exponent_def f32_fraction_def)

subsection \<open>Rounding and subtraction\<close>

text \<open>Rounding the magnitude of a finite binary32 value gives that value back.\<close>

lemma f32_round_exact:
  assumes "f32_is_finite w"
  shows "f32_round (f32_magnitude w) = fabsf w"
proof (cases "f32_exponent w = 0")
  case True
  have f: "f32_fraction w < 2 ^ 23" by (rule f32_fraction_less)
  then have "bit_length (f32_fraction w) \<le> 23" by (rule bit_length_le)
  then have k: "bit_length (f32_fraction w) - 24 = 0" by simp
  have "f32_round (f32_fraction w) = word_of_nat (f32_fraction w)"
    using f by (simp add: f32_round_def k)
  with True show ?thesis
    by (simp add: f32_magnitude_def fabsf_word)
next
  case False
  define e where "e = f32_exponent w - 1"
  define f where "f = f32_fraction w"
  have e: "f32_exponent w = Suc e" using False by (simp add: e_def)
  have f: "f < 2 ^ 23" unfolding f_def by (rule f32_fraction_less)
  have e_le: "e < 254" using assms e by (simp add: f32_is_finite_def)
  have mag: "f32_magnitude w = (2 ^ 23 + f) * 2 ^ e"
    using False by (simp add: f32_magnitude_def e_def f_def)
  have lo: "2 ^ (23 + e) \<le> (2 ^ 23 + f) * 2 ^ e"
    by (simp add: power_add)
  have "(2 ^ 23 + f) * 2 ^ e < 2 ^ 24 * 2 ^ e"
    using f by simp
  then have hi: "(2 ^ 23 + f) * 2 ^ e < 2 ^ Suc (23 + e)"
    by (simp add: power_add)
  have bl: "bit_length ((2 ^ 23 + f) * 2 ^ e) = Suc (23 + e)"
    using lo hi by (rule bit_length_eqI)
  have k: "bit_length ((2 ^ 23 + f) * 2 ^ e) - 24 = e"
    using bl by simp
  have bits: "e * 2 ^ 23 + (2 ^ 23 + f) < 2139095040"
    using f e_le by simp
  have "f32_round ((2 ^ 23 + f) * 2 ^ e) = word_of_nat (e * 2 ^ 23 + (2 ^ 23 + f))"
    unfolding f32_round_def k Let_def using bits by simp
  then show ?thesis
    by (simp add: mag fabsf_word e f_def)
qed

text \<open>
  Three differences next to \<open>1.0f\<close>: \<open>1 - 2 ^ -24\<close> is representable; \<open>1 - 2 ^ -25\<close> lies
  halfway between it and \<open>1.0f\<close> and goes to the even significand, \<open>1.0f\<close>; \<open>1 - 2 ^ -26\<close> is
  nearer to \<open>1.0f\<close>.
\<close>

lemma f32_fields_2_m24:
  "f32_exponent 0x33800000 = 103" "f32_fraction 0x33800000 = 0" "f32_sign 0x33800000 = False"
  by (simp_all add: f32_exponent_def f32_fraction_def f32_sign_def)

lemma f32_fields_2_m25:
  "f32_exponent 0x33000000 = 102" "f32_fraction 0x33000000 = 0" "f32_sign 0x33000000 = False"
  by (simp_all add: f32_exponent_def f32_fraction_def f32_sign_def)

lemma f32_fields_2_m26:
  "f32_exponent 0x32800000 = 101" "f32_fraction 0x32800000 = 0" "f32_sign 0x32800000 = False"
  by (simp_all add: f32_exponent_def f32_fraction_def f32_sign_def)

lemma bit_length_exact: "bit_length (2 ^ 149 - 2 ^ 125) = 149"
  by (rule bit_length_eqI [of 148, simplified Suc_numeral, simplified]) simp_all

lemma bit_length_tie: "bit_length (2 ^ 149 - 2 ^ 124) = 149"
  by (rule bit_length_eqI [of 148, simplified Suc_numeral, simplified]) simp_all

lemma bit_length_above_tie: "bit_length (2 ^ 149 - 2 ^ 123) = 149"
  by (rule bit_length_eqI [of 148, simplified Suc_numeral, simplified]) simp_all

lemma f32_sub_representable: "f32_sub 0x3F800000 0x33800000 = 0x3F7FFFFF"
  by (simp add: f32_sub_def f32_is_nan_def f32_is_inf_def f32_scaled_def f32_magnitude_def
      f32_fields_one f32_fields_2_m24 f32_round_def Let_def bit_length_exact [simplified])

lemma f32_sub_tie_to_even: "f32_sub 0x3F800000 0x33000000 = 0x3F800000"
  by (simp add: f32_sub_def f32_is_nan_def f32_is_inf_def f32_scaled_def f32_magnitude_def
      f32_fields_one f32_fields_2_m25 f32_round_def Let_def bit_length_tie [simplified])

lemma f32_sub_to_nearest: "f32_sub 0x3F800000 0x32800000 = 0x3F800000"
  by (simp add: f32_sub_def f32_is_nan_def f32_is_inf_def f32_scaled_def f32_magnitude_def
      f32_fields_one f32_fields_2_m26 f32_round_def Let_def bit_length_above_tie [simplified])

text \<open>A finite value minus itself is \<open>+0\<close>.\<close>

lemma f32_sub_self: "f32_is_finite a \<Longrightarrow> f32_sub a a = 0"
  by (simp add: f32_sub_def f32_is_nan_def f32_is_inf_def f32_is_finite_def)

text \<open>Zero minus \<open>a\<close> has the absolute value of \<open>a\<close>; it is a NaN when \<open>a\<close> is.\<close>

lemma fabsf_f32_sub_zero:
  assumes "\<not> f32_is_nan a"
  shows "fabsf (f32_sub 0 a) = fabsf a"
proof (cases "f32_is_inf a")
  case True
  with assms show ?thesis
    by (simp add: f32_sub_def f32_is_nan_def f32_is_inf_def f32_fields_zero fabsf_f32_neg)
next
  case False
  with assms have fin: "f32_is_finite a"
    using f32_exponent_less [of a]
    by (auto simp add: f32_is_nan_def f32_is_inf_def f32_is_finite_def)
  have sub: "f32_sub 0 a =
      (let d = - f32_scaled a in
       if d = 0 then 0
       else if d < 0 then f32_neg (f32_round (nat (- d))) else f32_round (nat d))"
    using assms False
    by (simp add: f32_sub_def f32_is_nan_def f32_is_inf_def f32_fields_zero f32_scaled_zero)
  show ?thesis
  proof (cases "f32_is_zero a")
    case True
    then show ?thesis
      by (simp add: sub f32_scaled_zero_iff fabsf_zero fabsf_is_zero)
  next
    case nz: False
    then have mag: "0 < f32_magnitude a"
      by (simp add: f32_magnitude_zero_iff [symmetric])
    show ?thesis
    proof (cases "f32_sign a")
      case True
      with mag have "f32_sub 0 a = f32_round (f32_magnitude a)"
        by (simp add: sub f32_scaled_def)
      then show ?thesis
        by (simp add: f32_round_exact [OF fin] fabsf_fabsf)
    next
      case False
      with mag have "f32_sub 0 a = f32_neg (f32_round (f32_magnitude a))"
        by (simp add: sub f32_scaled_def)
      then show ?thesis
        by (simp add: f32_round_exact [OF fin] fabsf_f32_neg fabsf_fabsf)
    qed
  qed
qed

lemma f32_greater_fabsf_f32_sub_zero:
  "f32_greater (fabsf (f32_sub 0 a)) e = f32_greater (fabsf a) e"
proof (cases "f32_is_nan a")
  case True
  then have "f32_sub 0 a = 0x7FC00000"
    by (simp add: f32_sub_def)
  with True show ?thesis
    by (simp add: f32_greater_def f32_is_nan_fabsf f32_is_nan_default_nan)
next
  case False
  then show ?thesis
    by (simp add: fabsf_f32_sub_zero)
qed

lemma zero_not_greater_FLT_EPSILON: "\<not> f32_greater 0 FLT_EPSILON"
  by (simp add: f32_greater_def f32_is_nan_def f32_scaled_def f32_magnitude_def
      f32_fields_zero f32_fields_FLT_EPSILON)

lemma one_greater_FLT_EPSILON: "f32_greater 0x3F800000 FLT_EPSILON"
  by (simp add: f32_greater_def f32_is_nan_def f32_scaled_def f32_magnitude_def
      f32_fields_one f32_fields_FLT_EPSILON)

section \<open>Frame facts of the header's member functions\<close>

lemmas header_defs =
  setNewestSample_def setDelayedSample_def setTilt_def setLimits_def setDelayedRng_def
  setDataReadiness_def setValidity_def

lemma do_call_dt_last_range_update_filt_us:
  "dt_last_range_update_filt_us (do_call sinf cosf c s) = dt_last_range_update_filt_us s"
  by (cases c) (simp_all add: do_call_def header_defs Let_def)

lemma do_call_tilt: "tilt (do_call sinf cosf c s) = tilt s"
  by (cases c) (simp_all add: do_call_def header_defs Let_def)

text \<open>
  While \<open>_tilt\<close> is \<open>0.0f\<close>, \<open>setTilt\<close> computes the sine and cosine exactly when the absolute
  value of the new angle exceeds \<open>FLT_EPSILON\<close>, whatever angle was set before.
\<close>

lemma setTilt_from_zero_tilt:
  "tilt s = 0 \<Longrightarrow>
   setTilt sinf cosf new_tilt c s =
     (if f32_greater (fabsf new_tilt) FLT_EPSILON
      then s\<lparr>sin_tilt_rng := sinf new_tilt, cos_tilt_rng := cosf new_tilt,
             range_cos_max_tilt := c\<rparr>
      else s\<lparr>range_cos_max_tilt := c\<rparr>)"
  by (simp add: setTilt_def Let_def f32_greater_fabsf_f32_sub_zero)

section \<open>The claims\<close>

text \<open>
  C1. After \<open>runChecks\<close> the validity flag returned by \<open>isHealthy\<close> is the conjunction of the
  five checks, read in the state \<open>runChecks\<close> leaves: the delayed distance within the
  configured bounds, the tilt acceptable, the data continuous, the sensor not stuck and the
  quality acceptable. The previous value of the flag plays no part.
\<close>

theorem runChecks_validity_is_conjunction:
  "isHealthy (runChecks N t R s) =
     (distance_in_bounds (runChecks N t R s) \<and> isTiltOk (runChecks N t R s) \<and>
      isRangeDataContinuous (runChecks N t R s) \<and> \<not> isStuck (runChecks N t R s) \<and>
      quality_ok t (runChecks N t R s))"
  by (simp add: runChecks_def Let_def isHealthy_def distance_in_bounds_def isTiltOk_def
      isRangeDataContinuous_def isStuck_def quality_ok_def)

text \<open>
  C2, as stated, fails: \<open>setDelayedSample\<close> is not the only member function that sets the
  data-ready flag. \<open>setDataReadiness(true)\<close> on a freshly constructed object sets it too.
\<close>

theorem setDataReadiness_sets_ready:
  "range_data_ready (setDataReadiness True SensorRangeFinder_default) \<and>
   \<not> range_data_ready SensorRangeFinder_default"
  by (simp add: setDataReadiness_def SensorRangeFinder_default_def)

text \<open>
  C2, amended. \<open>setDelayedSample(sample)\<close> overwrites the delayed sample with \<open>sample\<close> and
  sets the data-ready flag, whatever the state. Of the member functions whose bodies are in the
  header, \<open>setDataReadiness(b)\<close> sets the flag to \<open>b\<close>, and every other one leaves it as it
  was.
\<close>

theorem data_ready_after_call:
  "range_sample_delayed (setDelayedSample sample s) = sample \<and>
   range_data_ready (setDelayedSample sample s) \<and>
   range_data_ready (do_call sinf cosf c s) =
     (case c of
        SetDelayedSample x \<Rightarrow> True
      | SetDataReadiness b \<Rightarrow> b
      | _ \<Rightarrow> range_data_ready s)"
  by (cases c) (simp_all add: do_call_def header_defs Let_def)

text \<open>
  C3, evaluated on the code. \<open>setTilt\<close> never assigns \<open>_tilt\<close>, so the new angle is always
  compared with the initial \<open>0.0f\<close>. On a freshly constructed object \<open>setTilt(0.0f, c)\<close>
  leaves the cached sine and cosine at their initial \<open>0.0f\<close>, whatever \<open>sinf\<close> and \<open>cosf\<close>
  return (and \<open>cosf(0.0f)\<close> is \<open>1.0f\<close>, not \<open>0.0f\<close>). After \<open>setTilt(1.0f, c)\<close> a second call
  with the same angle \<open>1.0f\<close> stores the value of its own \<open>cosf\<close> again: it recomputes. After
  \<open>setTilt(1.0f, c)\<close> the call \<open>setTilt(0.0f, c')\<close> changes the angle by 1 and computes nothing:
  the cached values are still those of the angle \<open>1.0f\<close>.
\<close>

theorem setTilt_compares_with_stale_tilt:
  "tilt (setTilt sinf cosf a c s) = tilt s \<and>
   sin_tilt_rng (setTilt sinf cosf 0 c SensorRangeFinder_default) = 0 \<and>
   cos_tilt_rng (setTilt sinf cosf 0 c SensorRangeFinder_default) = 0 \<and>
   cos_tilt_rng (setTilt sinf' cosf' 0x3F800000 c'
       (setTilt sinf cosf 0x3F800000 c SensorRangeFinder_default)) = cosf' 0x3F800000 \<and>
   sin_tilt_rng (setTilt sinf' cosf' 0 c'
       (setTilt sinf cosf 0x3F800000 c SensorRangeFinder_default)) = sinf 0x3F800000 \<and>
   cos_tilt_rng (setTilt sinf' cosf' 0 c'
       (setTilt sinf cosf 0x3F800000 c SensorRangeFinder_default)) = cosf 0x3F800000"
proof -
  let ?d = SensorRangeFinder_default
  let ?s1 = "setTilt sinf cosf 0x3F800000 c ?d"
  have frame: "tilt (setTilt sinf cosf a c s) = tilt s" for sinf cosf a c s
    by (simp add: setTilt_def Let_def)
  have tilt0: "tilt ?d = 0"
    by (simp add: SensorRangeFinder_default_def)
  have tilt1: "tilt ?s1 = 0"
    by (simp only: frame tilt0)
  have fresh: "setTilt sinf cosf 0 c ?d = ?d\<lparr>range_cos_max_tilt := c\<rparr>"
    by (simp add: setTilt_from_zero_tilt [OF tilt0] fabsf_zero zero_not_greater_FLT_EPSILON)
  have first: "?s1 = ?d\<lparr>sin_tilt_rng := sinf 0x3F800000,
      cos_tilt_rng := cosf 0x3F800000, range_cos_max_tilt := c\<rparr>"
    by (simp add: setTilt_from_zero_tilt [OF tilt0] fabsf_one one_greater_FLT_EPSILON)
  have again: "setTilt sinf' cosf' 0x3F800000 c' ?s1 = ?s1\<lparr>sin_tilt_rng := sinf' 0x3F800000,
      cos_tilt_rng := cosf' 0x3F800000, range_cos_max_tilt := c'\<rparr>"
    by (simp add: setTilt_from_zero_tilt [OF tilt1] fabsf_one one_greater_FLT_EPSILON)
  have stale: "setTilt sinf' cosf' 0 c' ?s1 = ?s1\<lparr>range_cos_max_tilt := c'\<rparr>"
    by (simp add: setTilt_from_zero_tilt [OF tilt1] fabsf_zero zero_not_greater_FLT_EPSILON)
  have 1: "sin_tilt_rng (setTilt sinf cosf 0 c ?d) = 0"
    and 2: "cos_tilt_rng (setTilt sinf cosf 0 c ?d) = 0"
    by (simp_all add: fresh) (simp_all add: SensorRangeFinder_default_def)
  have 3: "cos_tilt_rng (setTilt sinf' cosf' 0x3F800000 c' ?s1) = cosf' 0x3F800000"
    by (simp add: again)
  have 4: "sin_tilt_rng (setTilt sinf' cosf' 0 c' ?s1) = sinf 0x3F800000"
    and 5: "cos_tilt_rng (setTilt sinf' cosf' 0 c' ?s1) = cosf 0x3F800000"
    by (simp_all add: stale) (simp_all add: first)
  from frame 1 2 3 4 5 show ?thesis
    by blast
qed

text \<open>
  C4. In every state \<open>isNewHealthyData\<close> and \<open>isDelayedHealthyData\<close> return the same value:
  the data-ready flag and the validity flag that \<open>isHealthy\<close> returns.
\<close>

theorem isNewHealthyData_eq_isDelayedHealthyData:
  "isNewHealthyData s = isDelayedHealthyData s \<and>
   isNewHealthyData s = (range_data_ready s \<and> isHealthy s)"
  by (simp add: isNewHealthyData_def isDelayedHealthyData_def isHealthy_def)

text \<open>
  C5, as stated, fails: validity does not imply data-ready. \<open>setValidity(true)\<close> on a freshly
  constructed object makes \<open>isHealthy\<close> true while the data-ready flag is false.
\<close>

theorem healthy_without_data_ready:
  "isHealthy (setValidity True SensorRangeFinder_default) \<and>
   \<not> range_data_ready (setValidity True SensorRangeFinder_default)"
  by (simp add: setValidity_def isHealthy_def SensorRangeFinder_default_def)

text \<open>
  C5, amended. In every state, if \<open>isNewHealthyData\<close> or \<open>isDelayedHealthyData\<close> returns true
  then the data-ready flag is true. (The flag that \<open>isHealthy\<close> returns is independent of the
  data-ready flag.)
\<close>

theorem healthy_data_implies_ready:
  "(isNewHealthyData s \<longrightarrow> range_data_ready s) \<and>
   (isDelayedHealthyData s \<longrightarrow> range_data_ready s)"
  by (simp add: isNewHealthyData_def isDelayedHealthyData_def)

theorem healthy_data_implies_ready_witness:
  "isNewHealthyData (setValidity True (setDelayedSample rangeSample_zero SensorRangeFinder_default)) \<and>
   isDelayedHealthyData (setValidity True (setDelayedSample rangeSample_zero SensorRangeFinder_default)) \<and>
   range_data_ready (setValidity True (setDelayedSample rangeSample_zero SensorRangeFinder_default))"
proof -
  let ?s = "setValidity True (setDelayedSample rangeSample_zero SensorRangeFinder_default)"
  have new: "isNewHealthyData ?s"
    by (simp add: isNewHealthyData_def setValidity_def setDelayedSample_def)
  have delayed: "isDelayedHealthyData ?s"
    by (simp add: isDelayedHealthyData_def setValidity_def setDelayedSample_def)
  from new healthy_data_implies_ready [of ?s] have "range_data_ready ?s"
    by blast
  with new delayed show ?thesis
    by blast
qed

text \<open>
  C6. \<open>isTiltOk\<close> returns true exactly when neither cosine is a NaN and the cached
  vertical-alignment cosine is strictly greater than the configured max-tilt cosine. When the
  cosine is less than or equal to the threshold, and in particular when the two are the same
  value, it returns false.
\<close>

theorem isTiltOk_iff_strictly_greater:
  "(isTiltOk s \<longleftrightarrow>
      \<not> f32_is_nan (R_rng_to_earth_2_2 s) \<and> \<not> f32_is_nan (range_cos_max_tilt s) \<and>
      f32_val (range_cos_max_tilt s) < f32_val (R_rng_to_earth_2_2 s)) \<and>
   (f32_less_eq (R_rng_to_earth_2_2 s) (range_cos_max_tilt s) \<longrightarrow> \<not> isTiltOk s) \<and>
   (R_rng_to_earth_2_2 s = range_cos_max_tilt s \<longrightarrow> \<not> isTiltOk s)"
  by (auto simp add: isTiltOk_def f32_greater_iff_val dest: f32_less_eq_not_greater)

theorem isTiltOk_iff_strictly_greater_witness:
  "f32_less_eq (R_rng_to_earth_2_2 (SensorRangeFinder_default\<lparr>R_rng_to_earth_2_2 := 0x3F350481\<rparr>))
     (range_cos_max_tilt (SensorRangeFinder_default\<lparr>R_rng_to_earth_2_2 := 0x3F350481\<rparr>)) \<and>
   R_rng_to_earth_2_2 (SensorRangeFinder_default\<lparr>R_rng_to_earth_2_2 := 0x3F350481\<rparr>) =
     range_cos_max_tilt (SensorRangeFinder_default\<lparr>R_rng_to_earth_2_2 := 0x3F350481\<rparr>) \<and>
   \<not> isTiltOk (SensorRangeFinder_default\<lparr>R_rng_to_earth_2_2 := 0x3F350481\<rparr>)"
proof -
  let ?s = "SensorRangeFinder_default\<lparr>R_rng_to_earth_2_2 := 0x3F350481\<rparr>"
  have same: "R_rng_to_earth_2_2 ?s = range_cos_max_tilt ?s"
    by (simp add: SensorRangeFinder_default_def)
  have le: "f32_less_eq (R_rng_to_earth_2_2 ?s) (range_cos_max_tilt ?s)"
    by (simp add: SensorRangeFinder_default_def f32_less_eq_def f32_is_nan_def
        f32_exponent_def)
  from le isTiltOk_iff_strictly_greater [of ?s] have "\<not> isTiltOk ?s"
    by blast
  with same le show ?thesis
    by blast
qed

text \<open>
  C7. The filtered interval is continuous exactly when it is not a NaN and strictly less
  than 2000000 (microseconds). The threshold is the same in every state, and no member
  function with a body in the header changes it or the interval it is compared with.
\<close>

theorem isRangeDataContinuous_threshold:
  "(isRangeDataContinuous s \<longleftrightarrow>
      \<not> f32_is_nan (dt_last_range_update_filt_us s) \<and>
      f32_val (dt_last_range_update_filt_us s) < 2000000) \<and>
   (isRangeDataContinuous (do_call sinf cosf c s) \<longleftrightarrow>
      \<not> f32_is_nan (dt_last_range_update_filt_us s) \<and>
      f32_val (dt_last_range_update_filt_us s) < 2000000)"
  by (simp add: isRangeDataContinuous_def f32_less_iff_val f32_val_2e6 f32_not_nan_2e6
      do_call_dt_last_range_update_filt_us)

text \<open>
  C8. Reading the delayed distance back after \<open>setDelayedRng(r)\<close> gives \<open>r\<close>, bit for bit, and
  after \<open>setDelayedSample(sample)\<close> it gives the distance of \<open>sample\<close>.
\<close>

theorem delayed_rng_round_trip:
  "getDelayedRng (setDelayedRng r s) = r \<and>
   getDelayedRng (setDelayedSample sample s) = rng sample"
  by (simp add: getDelayedRng_def setDelayedRng_def setDelayedSample_def)

text \<open>
  C9. A default-constructed \<open>SensorRangeFinder\<close> is not healthy, not stuck and has no data
  ready, so that \<open>isNewHealthyData\<close> and \<open>isDelayedHealthyData\<close> are false; its quality
  hysteresis duration is 1000 milliseconds.
\<close>

theorem default_constructed_state:
  "\<not> isHealthy SensorRangeFinder_default \<and>
   \<not> isStuck SensorRangeFinder_default \<and>
   \<not> range_data_ready SensorRangeFinder_default \<and>
   \<not> isNewHealthyData SensorRangeFinder_default \<and>
   \<not> isDelayedHealthyData SensorRangeFinder_default \<and>
   unat (range_signal_hysteresis_ms SensorRangeFinder_default) = 1000"
  by (simp add: SensorRangeFinder_default_def isHealthy_def isStuck_def isNewHealthyData_def
      isDelayedHealthyData_def)

text \<open>
  C10. After \<open>setLimits(min, max)\<close> the getters \<open>getValidMinVal\<close> and \<open>getValidMaxVal\<close> return a
  \<open>bool\<close>, true exactly when the stored distance is not zero (a NaN counts as not zero). With
  the limits 0.5 and 30.0 both return true, not the distances.
\<close>

theorem getValidMinVal_getValidMaxVal_nonzero:
  "getValidMinVal (setLimits min_distance max_distance s) =
     (f32_is_nan min_distance \<or> f32_val min_distance \<noteq> 0) \<and>
   getValidMaxVal (setLimits min_distance max_distance s) =
     (f32_is_nan max_distance \<or> f32_val max_distance \<noteq> 0) \<and>
   getValidMinVal (setLimits 0x3F000000 0x41F00000 s) = True \<and>
   getValidMaxVal (setLimits 0x3F000000 0x41F00000 s) = True"
  apply (simp add: getValidMinVal_def getValidMaxVal_def setLimits_def float_to_bool_def
      f32_val_zero_iff)
  apply (auto simp add: f32_is_nan_def f32_is_zero_def f32_exponent_def f32_fraction_def)
  done

end
